theory Spec2Isabelle
  imports Complex_Main
begin

section \<open>Python values\<close>

text \<open>
  A Python \<open>str\<close> is a sequence of Unicode code points, so it is modelled as a list of
  integers (a code point lies between 0 and 1114111): \<open>len\<close> is \<open>length\<close>. Literals
  of the source are written with \<open>pstr\<close>. A finite Python float is the rational number
  it denotes, and the arithmetic on floats rounds as IEEE doubles do (see the section on
  doubles). The scores inside the nine checks are whole numbers up to 100, on which
  addition and subtraction are exact, and every comparison of the source between an
  integer and an integer multiplied by \<open>0.05\<close> or \<open>0.1\<close> has the same outcome in
  exact arithmetic.
\<close>

type_synonym pystr = "int list"

definition pstr :: "string \<Rightarrow> pystr" where
  "pstr s = map of_char s"

datatype pyval =
    PyNone
  | PyBool bool
  | PyInt int
  | PyFloat rat
  | PyStr pystr
  | PyList "pyval list"
  | PyDict "(pystr \<times> pyval) list"

text \<open>A \<open>dict\<close> with string keys keeps insertion order: an association list.\<close>

type_synonym pydict = "(pystr \<times> pyval) list"

definition has_key :: "pydict \<Rightarrow> pystr \<Rightarrow> bool" where
  "has_key d k = (map_of d k \<noteq> None)"

definition dict_keys :: "pydict \<Rightarrow> pystr list" where
  "dict_keys d = remdups (map fst d)"

subsection \<open>String methods\<close>

text \<open>\<open>str.isspace\<close> of one code point (the Unicode white space characters).\<close>

definition is_space :: "int \<Rightarrow> bool" where
  "is_space c = ((9 \<le> c \<and> c \<le> 13) \<or> (28 \<le> c \<and> c \<le> 32) \<or> c = 133 \<or> c = 160
     \<or> c = 5760 \<or> (8192 \<le> c \<and> c \<le> 8202) \<or> c = 8232 \<or> c = 8233 \<or> c = 8239
     \<or> c = 8287 \<or> c = 12288)"

definition strip :: "pystr \<Rightarrow> pystr" where
  "strip s = rev (dropWhile is_space (rev (dropWhile is_space s)))"

text \<open>\<open>s.split()\<close>: the maximal runs of characters that are not white space.\<close>

fun words_acc :: "pystr \<Rightarrow> pystr \<Rightarrow> pystr list" where
  "words_acc cur [] = (if cur = [] then [] else [rev cur])"
| "words_acc cur (c # cs) =
     (if is_space c then (if cur = [] then words_acc [] cs else rev cur # words_acc [] cs)
      else words_acc (c # cur) cs)"

definition split_ws :: "pystr \<Rightarrow> pystr list" where
  "split_ws s = words_acc [] s"

text \<open>\<open>s.split(sep)\<close> for a separator of one character.\<close>

fun split_acc :: "int \<Rightarrow> pystr \<Rightarrow> pystr \<Rightarrow> pystr list" where
  "split_acc sep cur [] = [rev cur]"
| "split_acc sep cur (c # cs) =
     (if c = sep then rev cur # split_acc sep [] cs else split_acc sep (c # cur) cs)"

definition split_on :: "int \<Rightarrow> pystr \<Rightarrow> pystr list" where
  "split_on sep s = split_acc sep [] s"

definition starts_with :: "pystr \<Rightarrow> pystr \<Rightarrow> bool" where
  "starts_with s sub = (take (length sub) s = sub)"

text \<open>\<open>sub in s\<close>.\<close>

fun py_in :: "pystr \<Rightarrow> pystr \<Rightarrow> bool" where
  "py_in sub [] = (sub = [])"
| "py_in sub (c # cs) = (starts_with (c # cs) sub \<or> py_in sub cs)"

text \<open>
  \<open>s.count(sub)\<close>: the occurrences of \<open>sub\<close> that do not overlap, from the left; the
  empty string occurs \<open>len(s) + 1\<close> times.
\<close>

fun count_sub :: "pystr \<Rightarrow> pystr \<Rightarrow> nat" where
  "count_sub sub [] = (if sub = [] then 1 else 0)"
| "count_sub sub (c # cs) =
     (if sub = [] then Suc (count_sub sub cs)
      else if starts_with (c # cs) sub then Suc (count_sub sub (drop (length sub - 1) cs))
      else count_sub sub cs)"

text \<open>
  \<open>s.lower()\<close>, given on the ASCII letters; other code points are left as they are.
\<close>

definition lower_cp :: "int \<Rightarrow> int" where
  "lower_cp c = (if 65 \<le> c \<and> c \<le> 90 then c + 32 else c)"

definition upper_cp :: "int \<Rightarrow> int" where
  "upper_cp c = (if 97 \<le> c \<and> c \<le> 122 then c - 32 else c)"

definition lower :: "pystr \<Rightarrow> pystr" where
  "lower s = map lower_cp s"

text \<open>\<open>str(n)\<close> of a natural number.\<close>

fun digits_acc :: "nat \<Rightarrow> pystr \<Rightarrow> pystr" where
  "digits_acc n acc =
     (if n < 10 then (48 + int n) # acc else digits_acc (n div 10) ((48 + int (n mod 10)) # acc))"

definition str_nat :: "nat \<Rightarrow> pystr" where
  "str_nat n = digits_acc n []"

text \<open>\<open>sep.join(xs)\<close>.\<close>

fun join :: "pystr \<Rightarrow> pystr list \<Rightarrow> pystr" where
  "join sep [] = []"
| "join sep [x] = x"
| "join sep (x # y # ys) = x @ sep @ join sep (y # ys)"

text \<open>
  \<open>repr\<close> of a string that holds no quote, backslash or control character (the only
  strings the scoring code prints), and \<open>str\<close> of a list of them.
\<close>

definition repr_str :: "pystr \<Rightarrow> pystr" where
  "repr_str s = pstr [CHR 0x27] @ s @ pstr [CHR 0x27]"

definition str_list :: "pystr list \<Rightarrow> pystr" where
  "str_list xs = pstr ''['' @ join (pstr '', '') (map repr_str xs) @ pstr '']''"

section \<open>Regular expressions of the \<open>re\<close> module\<close>

text \<open>
  The patterns of the source are built from character classes, \<open>\b\<close>, sequence,
  alternation and greedy repetition. A match state is the character before the
  position (for \<open>\b\<close>) and the rest of the text. \<open>matches\<close> lists every way a pattern
  can match at a position, in the order in which the backtracking matcher tries them,
  so the head of the list is the match \<open>re\<close> reports. The classes \<open>\d\<close>, \<open>\w\<close> and
  case folding are given on ASCII.
\<close>

datatype regex =
    Chr "(int \<times> int) list"
  | NChr "(int \<times> int) list"
  | Bnd
  | Eps
  | Seq regex regex
  | Alt regex regex
  | Star regex

type_synonym mstate = "int option \<times> pystr"

definition in_ranges :: "(int \<times> int) list \<Rightarrow> int \<Rightarrow> bool" where
  "in_ranges rs c = list_ex (\<lambda>(lo, hi). lo \<le> c \<and> c \<le> hi) rs"

definition in_class :: "bool \<Rightarrow> (int \<times> int) list \<Rightarrow> int \<Rightarrow> bool" where
  "in_class ic rs c =
     (in_ranges rs c \<or> (ic \<and> (in_ranges rs (lower_cp c) \<or> in_ranges rs (upper_cp c))))"

definition is_word :: "int \<Rightarrow> bool" where
  "is_word c = ((48 \<le> c \<and> c \<le> 57) \<or> (65 \<le> c \<and> c \<le> 90) \<or> c = 95 \<or> (97 \<le> c \<and> c \<le> 122))"

definition word_opt :: "int option \<Rightarrow> bool" where
  "word_opt p = (case p of None \<Rightarrow> False | Some c \<Rightarrow> is_word c)"

definition next_char :: "pystr \<Rightarrow> int option" where
  "next_char s = (case s of [] \<Rightarrow> None | c # _ \<Rightarrow> Some c)"

definition match_chr :: "(int \<Rightarrow> bool) \<Rightarrow> mstate \<Rightarrow> mstate list" where
  "match_chr P st = (case snd st of [] \<Rightarrow> [] | c # cs \<Rightarrow> if P c then [(Some c, cs)] else [])"

definition match_bnd :: "mstate \<Rightarrow> mstate list" where
  "match_bnd st = (if word_opt (fst st) \<noteq> word_opt (next_char (snd st)) then [st] else [])"

text \<open>
  Greedy repetition: one more round of the body first, when it consumed something,
  then the exit. The fuel is the length of the rest, which every round shortens.
\<close>

fun star_iter :: "nat \<Rightarrow> (mstate \<Rightarrow> mstate list) \<Rightarrow> mstate \<Rightarrow> mstate list" where
  "star_iter 0 f st = [st]"
| "star_iter (Suc n) f st =
     concat (map (star_iter n f) (filter (\<lambda>st'. length (snd st') < length (snd st)) (f st)))
       @ [st]"

primrec matches :: "bool \<Rightarrow> regex \<Rightarrow> mstate \<Rightarrow> mstate list" where
  "matches ic (Chr rs) = match_chr (in_class ic rs)"
| "matches ic (NChr rs) = match_chr (\<lambda>c. \<not> in_class ic rs c)"
| "matches ic Bnd = match_bnd"
| "matches ic Eps = (\<lambda>st. [st])"
| "matches ic (Seq a b) = (\<lambda>st. concat (map (matches ic b) (matches ic a st)))"
| "matches ic (Alt a b) = (\<lambda>st. matches ic a st @ matches ic b st)"
| "matches ic (Star a) = (\<lambda>st. star_iter (length (snd st)) (matches ic a) st)"

text \<open>\<open>re.search\<close>: is there a match at some position.\<close>

fun search_from :: "bool \<Rightarrow> regex \<Rightarrow> int option \<Rightarrow> pystr \<Rightarrow> bool" where
  "search_from ic r p [] = (matches ic r (p, []) \<noteq> [])"
| "search_from ic r p (c # cs) = (matches ic r (p, c # cs) \<noteq> [] \<or> search_from ic r (Some c) cs)"

definition re_search :: "bool \<Rightarrow> regex \<Rightarrow> pystr \<Rightarrow> bool" where
  "re_search ic r s = search_from ic r None s"

text \<open>
  \<open>len(re.findall(...))\<close>: the matches that do not overlap, from the left. No pattern
  of the source matches the empty string; a match that consumes nothing is counted
  and the scan moves on by one character.
\<close>

function count_from :: "bool \<Rightarrow> regex \<Rightarrow> int option \<Rightarrow> pystr \<Rightarrow> nat" where
  "count_from ic r p s =
     (case matches ic r (p, s) of
        [] \<Rightarrow> (case s of [] \<Rightarrow> 0 | c # cs \<Rightarrow> count_from ic r (Some c) cs)
      | st # _ \<Rightarrow>
          (if length (snd st) < length s then Suc (count_from ic r (fst st) (snd st))
           else (case s of [] \<Rightarrow> 1 | c # cs \<Rightarrow> Suc (count_from ic r (Some c) cs))))"
  by pat_completeness auto
termination
  by (relation "measure (\<lambda>(ic, r, p, s). length s)") auto

definition findall_count :: "bool \<Rightarrow> regex \<Rightarrow> pystr \<Rightarrow> nat" where
  "findall_count ic r s = count_from ic r None s"

subsection \<open>Pattern notation\<close>

definition ch :: "char \<Rightarrow> regex" where
  "ch c = Chr [(of_char c, of_char c)]"

fun lit :: "string \<Rightarrow> regex" where
  "lit [] = Eps"
| "lit [c] = ch c"
| "lit (c # d # cs) = Seq (ch c) (lit (d # cs))"

fun seqs :: "regex list \<Rightarrow> regex" where
  "seqs [] = Eps"
| "seqs [r] = r"
| "seqs (r # q # rs) = Seq r (seqs (q # rs))"

fun alts :: "regex list \<Rightarrow> regex" where
  "alts [] = NChr [(0, 1114111)]"
| "alts [r] = r"
| "alts (r # q # rs) = Alt r (alts (q # rs))"

definition plus :: "regex \<Rightarrow> regex" where
  "plus r = Seq r (Star r)"

definition opt :: "regex \<Rightarrow> regex" where
  "opt r = Alt r Eps"

fun rep :: "nat \<Rightarrow> regex \<Rightarrow> regex" where
  "rep 0 r = Eps"
| "rep (Suc 0) r = r"
| "rep (Suc (Suc n)) r = Seq r (rep (Suc n) r)"

definition cls :: "string \<Rightarrow> (int \<times> int) list" where
  "cls cs = map (\<lambda>c. (of_char c, of_char c)) cs"

definition upper_az :: "(int \<times> int) list" where "upper_az = [(65, 90)]"
definition lower_az :: "(int \<times> int) list" where "lower_az = [(97, 122)]"
definition digit :: "(int \<times> int) list" where "digit = [(48, 57)]"

text \<open>\<open>\s\<close>: the white space of \<open>is_space\<close>, as ranges.\<close>

definition space_cls :: "(int \<times> int) list" where
  "space_cls = [(9, 13), (28, 32), (133, 133), (160, 160), (5760, 5760), (8192, 8202),
     (8232, 8233), (8239, 8239), (8287, 8287), (12288, 12288)]"

section \<open>IEEE doubles\<close>

text \<open>
  A Python float is an IEEE 754 double. A finite double is modelled as the rational
  number it denotes. \<open>fl_round\<close> is the rounding of a real result to the nearest
  double, a tie going to the even mantissa: for \<open>2^e \<le> |x| < 2^(e+1)\<close> the doubles
  around \<open>x\<close> are the multiples of \<open>2^(e-52)\<close>, and of \<open>2^(-1074)\<close> in the subnormal
  range. A decimal literal of the source denotes the double nearest to it; the sum and
  the product of two doubles are the rounded exact sum and product. Overflow to
  infinity, which starts at \<open>2^1024\<close>, is not modelled: the scores are at most 100 and
  the weights below 1.
\<close>

definition round_half_even :: "rat \<Rightarrow> int" where
  "round_half_even y =
     (let f = \<lfloor>y\<rfloor>; d = y - of_int f in
      if d < 1 / 2 then f else if d > 1 / 2 then f + 1 else if even f then f else f + 1)"

text \<open>The number of binary digits of a positive integer.\<close>

function bit_len :: "int \<Rightarrow> int" where
  "bit_len n = (if n \<le> 0 then 0 else 1 + bit_len (n div 2))"
  by pat_completeness auto
termination
  by (relation "measure nat") auto

definition pow2 :: "int \<Rightarrow> rat" where
  "pow2 e = (if e \<ge> 0 then 2 ^ nat e else 1 / 2 ^ nat (- e))"

text \<open>For \<open>x > 0\<close>, the \<open>e\<close> with \<open>2^e \<le> x < 2^(e+1)\<close>.\<close>

definition floor_log2 :: "rat \<Rightarrow> int" where
  "floor_log2 x =
     (let e = bit_len (fst (quotient_of x)) - bit_len (snd (quotient_of x))
      in if pow2 e \<le> x then e else e - 1)"

definition fl_round :: "rat \<Rightarrow> rat" where
  "fl_round x =
     (if x = 0 then 0
      else let q = max (floor_log2 \<bar>x\<bar> - 52) (- 1074)
           in of_int (round_half_even (x / pow2 q)) * pow2 q)"

definition fl_add :: "rat \<Rightarrow> rat \<Rightarrow> rat" where
  "fl_add x y = fl_round (x + y)"

definition fl_mul :: "rat \<Rightarrow> rat \<Rightarrow> rat" where
  "fl_mul x y = fl_round (x * y)"

section \<open>The ATS checker (\<open>app/agents/ats_checker.py\<close>)\<close>

datatype ATSConfidence = HIGH | MEDIUM | LOW

record ATSIssue =
  category :: pystr
  severity :: pystr
  message :: pystr
  recommendation :: pystr

record ATSBreakdown =
  file_text_extractable :: rat
  layout :: rat
  headers :: rat
  contact :: rat
  skills :: rat
  experience :: rat
  dates :: rat
  fonts_images :: rat
  length_score :: rat

record ATSReport =
  score :: rat
  breakdown :: ATSBreakdown
  issues :: "ATSIssue list"
  recommended_actions :: "pystr list"
  confidence :: ATSConfidence

text \<open>The two accumulators of an \<open>ATSChecker\<close> instance.\<close>

record ATSChecker =
  self_issues :: "ATSIssue list"
  self_recommended_actions :: "pystr list"

definition init_checker :: ATSChecker where
  "init_checker = \<lparr>self_issues = [], self_recommended_actions = []\<rparr>"

definition append_issue :: "ATSChecker \<Rightarrow> string \<Rightarrow> string \<Rightarrow> pystr \<Rightarrow> pystr \<Rightarrow> ATSChecker" where
  "append_issue self c s m r =
     self\<lparr>self_issues := self_issues self @
       [\<lparr>category = pstr c, severity = pstr s, message = m, recommendation = r\<rparr>]\<rparr>"

text \<open>The weights are the doubles that the decimal literals of the source denote.\<close>

definition WEIGHTS :: "(string \<times> rat) list" where
  "WEIGHTS = [
     (''file_text_extractable'', fl_round (15 / 100)),
     (''layout'', fl_round (15 / 100)),
     (''headers'', fl_round (12 / 100)),
     (''contact'', fl_round (10 / 100)),
     (''skills'', fl_round (15 / 100)),
     (''experience'', fl_round (15 / 100)),
     (''dates'', fl_round (8 / 100)),
     (''fonts_images'', fl_round (5 / 100)),
     (''length'', fl_round (5 / 100))]"

definition weight :: "string \<Rightarrow> rat" where
  "weight k = the (map_of WEIGHTS k)"

definition OPTIMAL_LENGTH_MIN :: nat where "OPTIMAL_LENGTH_MIN = 400"
definition OPTIMAL_LENGTH_MAX :: nat where "OPTIMAL_LENGTH_MAX = 800"

text \<open>
  \<open>ATS_HEADERS\<close> and \<open>SKILL_KEYWORDS\<close> are Python sets; they are listed in the order of
  the source. Only the number of distinct names found enters a score.
\<close>

definition ATS_HEADERS :: "pystr list" where
  "ATS_HEADERS = map pstr [
     ''contact'', ''personal information'', ''contact information'',
     ''summary'', ''professional summary'', ''objective'', ''profile'',
     ''experience'', ''work experience'', ''employment'', ''professional experience'',
     ''education'', ''academic background'', ''qualifications'',
     ''skills'', ''technical skills'', ''core competencies'', ''expertise'',
     ''certifications'', ''certificates'', ''licenses'',
     ''projects'', ''portfolio'', ''achievements'', ''accomplishments'']"

definition SKILL_KEYWORDS :: "pystr list" where
  "SKILL_KEYWORDS = map pstr [
     ''python'', ''java'', ''javascript'', ''typescript'', ''react'', ''angular'', ''vue'',
     ''node.js'', ''express'', ''django'', ''flask'', ''spring'', ''laravel'',
     ''sql'', ''mysql'', ''postgresql'', ''mongodb'', ''redis'', ''elasticsearch'',
     ''aws'', ''azure'', ''gcp'', ''docker'', ''kubernetes'', ''jenkins'',
     ''git'', ''github'', ''gitlab'', ''ci/cd'', ''devops'', ''agile'', ''scrum'',
     ''leadership'', ''teamwork'', ''communication'', ''problem solving'',
     ''project management'', ''time management'', ''analytical'', ''creative'',
     ''collaboration'', ''mentoring'', ''training'', ''presentation'']"

text \<open>\<open>sum(text.count(i) for i in indicators)\<close>.\<close>

definition count_all :: "pystr list \<Rightarrow> pystr \<Rightarrow> nat" where
  "count_all indicators text = sum_list (map (\<lambda>i. count_sub i text) indicators)"

subsection \<open>\<open>_check_file_text_extractable\<close>\<close>

definition garbled_indicators :: "pystr list" where
  "garbled_indicators = [[], pstr ''cid:'', [0], [65533]]"

definition check_file_text_extractable :: "ATSChecker \<Rightarrow> pystr \<Rightarrow> rat \<times> ATSChecker" where
  "check_file_text_extractable self raw_text =
     (if raw_text = [] \<or> length (strip raw_text) < 50 then
        (0, append_issue self ''file_text_extractable'' ''critical''
              (pstr ''Resume text is too short or unreadable'')
              (pstr ''Ensure the resume file is properly formatted and contains sufficient content''))
      else
        let garbled_count = count_all garbled_indicators raw_text in
        if (of_nat garbled_count :: rat) > of_nat (length raw_text) * (5 / 100) then
          (30, append_issue self ''file_text_extractable'' ''major''
                 (pstr ''Text contains '' @ str_nat garbled_count @ pstr '' encoding issues'')
                 (pstr ''Re-save the resume in a standard format (PDF or DOCX)''))
        else
          let word_count = length (split_ws raw_text) in
          if word_count < 100 then
            (60, append_issue self ''file_text_extractable'' ''major''
                   (pstr ''Resume has only '' @ str_nat word_count @ pstr '' words'')
                   (pstr ''Add more detailed content to your resume''))
          else (100, self))"

subsection \<open>\<open>_check_layout\<close>\<close>

definition table_indicators :: "pystr list" where
  "table_indicators = [[124], [9484], [9488], [9492], [9496], [9500], [9508], [9516], [9524]]"

definition check_layout :: "ATSChecker \<Rightarrow> pydict \<Rightarrow> pystr \<Rightarrow> rat \<times> ATSChecker" where
  "check_layout self resume_json raw_text =
     (let score = 100;
          table_count = count_all table_indicators raw_text;
          (score, self) =
            (if table_count > 10 then
               (score - 30, append_issue self ''layout'' ''major''
                  (pstr ''Resume contains complex table formatting'')
                  (pstr ''Use simple bullet points and standard formatting instead of tables''))
             else (score, self));
          (score, self) =
            (if py_in (pstr ''  '') raw_text \<and>
                (of_nat (count_sub [10] raw_text) :: rat) < of_nat (length (split_ws raw_text)) * (1 / 10)
             then
               (score - 10, append_issue self ''layout'' ''minor''
                  (pstr ''Resume may use column formatting'')
                  (pstr ''Use single-column layout for better ATS compatibility''))
             else (score, self));
          lines = split_on 10 raw_text;
          non_empty_lines = filter (\<lambda>line. strip line \<noteq> []) lines;
          (score, self) =
            (if length non_empty_lines < 10 then
               (score - 20, append_issue self ''layout'' ''major''
                  (pstr ''Resume has insufficient structure'')
                  (pstr ''Add proper sections and line breaks''))
             else (score, self))
      in (max 0 score, self))"

subsection \<open>\<open>_check_headers\<close>\<close>

text \<open>
  The message of the issue prints \<open>list(unique_headers)\<close>, whose order is the iteration
  order of a Python set of strings: it is fixed for the sequence of insertions within
  one process and otherwise unspecified. It is the parameter \<open>set_iter\<close>, a function of
  the sequence of insertions.
\<close>

definition check_headers ::
  "(pystr list \<Rightarrow> pystr list) \<Rightarrow> ATSChecker \<Rightarrow> pydict \<Rightarrow> pystr \<Rightarrow> rat \<times> ATSChecker" where
  "check_headers set_iter self resume_json raw_text =
     (let text_lower = lower raw_text;
          found_headers = filter (\<lambda>header. py_in header text_lower) ATS_HEADERS;
          found_headers =
            (if resume_json \<noteq> [] then
               found_headers @
                 map lower (filter (\<lambda>key. lower key \<in> set ATS_HEADERS) (dict_keys resume_json))
             else found_headers);
          n = length (remdups found_headers);
          score = (if n \<ge> 5 then 100 else if n \<ge> 3 then 80 else if n \<ge> 2 then 60
                   else if n \<ge> 1 then 40 else 0);
          missing_headers = map pstr [''experience'', ''skills'', ''education''];
          self =
            (if n < 3 then
               append_issue self ''headers'' ''major''
                 (pstr ''Missing important section headers. Found: '' @
                    str_list (set_iter found_headers))
                 (pstr ''Add clear section headers like: '' @ join (pstr '', '') missing_headers)
             else self)
      in (score, self))"

subsection \<open>\<open>_check_contact\<close>\<close>

definition email_pattern :: regex where
  "email_pattern = seqs [Bnd,
     plus (Chr (upper_az @ lower_az @ digit @ cls ''._%+-'')),
     ch CHR ''@'',
     plus (Chr (upper_az @ lower_az @ digit @ cls ''.-'')),
     ch CHR ''.'',
     rep 2 (Chr (upper_az @ cls ''|'' @ lower_az)),
     Star (Chr (upper_az @ cls ''|'' @ lower_az)),
     Bnd]"

definition phone_sep :: regex where
  "phone_sep = opt (Chr (cls ''-.'' @ space_cls))"

definition phone_pattern :: regex where
  "phone_pattern = seqs [
     opt (seqs [opt (ch CHR ''+''), ch CHR ''1'', phone_sep]),
     opt (ch CHR ''(''), rep 3 (Chr digit), opt (ch CHR '')''), phone_sep,
     rep 3 (Chr digit), phone_sep, rep 4 (Chr digit)]"

definition location_patterns :: "regex list" where
  "location_patterns = [
     seqs [Bnd, Chr upper_az, plus (Chr lower_az), ch CHR '','', Star (Chr space_cls),
           rep 2 (Chr upper_az), Bnd],
     seqs [Bnd, Chr upper_az, plus (Chr lower_az), plus (Chr space_cls),
           Chr upper_az, plus (Chr lower_az), Bnd],
     seqs [Bnd, alts [lit ''address'', lit ''location''], ch CHR '':'', Star (Chr space_cls),
           plus (NChr [(10, 10)]), Bnd]]"

definition contact_keys :: "pystr list" where
  "contact_keys = map pstr [''email'', ''phone'', ''address'', ''location'', ''contact'']"

text \<open>The loop over \<open>contact_keys\<close>; the state is \<open>contact_found\<close> and \<open>score\<close>.\<close>

fun contact_loop :: "pydict \<Rightarrow> pystr list \<Rightarrow> pystr list \<times> rat \<Rightarrow> pystr list \<times> rat" where
  "contact_loop resume_json [] st = st"
| "contact_loop resume_json (key # keys) (contact_found, sc) =
     contact_loop resume_json keys
       (if has_key resume_json (lower key) then
          (if lower key \<notin> set contact_found then (contact_found @ [lower key], sc + 20)
           else (contact_found, sc))
        else if has_key resume_json key then
          (if lower key \<notin> set contact_found then (contact_found @ [lower key], sc + 20)
           else (contact_found, sc))
        else (contact_found, sc))"

definition check_contact :: "ATSChecker \<Rightarrow> pydict \<Rightarrow> pystr \<Rightarrow> rat \<times> ATSChecker" where
  "check_contact self resume_json raw_text =
     (let score = 0;
          contact_found = [];
          (contact_found, score) =
            (if findall_count False email_pattern raw_text > 0
             then (contact_found @ [pstr ''email''], score + 30) else (contact_found, score));
          (contact_found, score) =
            (if findall_count False phone_pattern raw_text > 0
             then (contact_found @ [pstr ''phone''], score + 30) else (contact_found, score));
          (contact_found, score) =
            (if list_ex (\<lambda>pattern. re_search True pattern raw_text) location_patterns
             then (contact_found @ [pstr ''location''], score + 20) else (contact_found, score));
          (contact_found, score) =
            (if resume_json \<noteq> [] then contact_loop resume_json contact_keys (contact_found, score)
             else (contact_found, score));
          self =
            (if contact_found = [] then
               append_issue self ''contact'' ''critical''
                 (pstr ''No contact information found'')
                 (pstr ''Add email, phone number, and location to your resume'')
             else if length contact_found < 2 then
               append_issue self ''contact'' ''major''
                 (pstr ''Limited contact information. Found: '' @ str_list contact_found)
                 (pstr ''Add missing contact details (email, phone, location)'')
             else self)
      in (min 100 score, self))"


subsection \<open>\<open>_check_skills\<close>\<close>

text \<open>The \<open>skills\<close> field of the resume: a list (its strings, lower-cased) or a string
  (its lower-cased words); anything else adds nothing.\<close>

fun str_items :: "pyval list \<Rightarrow> pystr list" where
  "str_items [] = []"
| "str_items (PyStr s # vs) = lower s # str_items vs"
| "str_items (v # vs) = str_items vs"

definition json_skills :: "pydict \<Rightarrow> pystr list" where
  "json_skills resume_json =
     (if resume_json \<noteq> [] then
        (case map_of resume_json (pstr ''skills'') of
           Some (PyList vs) \<Rightarrow> str_items vs
         | Some (PyStr s) \<Rightarrow> split_ws (lower s)
         | _ \<Rightarrow> [])
      else [])"

definition check_skills :: "ATSChecker \<Rightarrow> pydict \<Rightarrow> pystr \<Rightarrow> rat \<times> ATSChecker" where
  "check_skills self resume_json raw_text =
     (let text_lower = lower raw_text;
          skills_found = filter (\<lambda>skill. py_in skill text_lower) SKILL_KEYWORDS;
          skills_found = skills_found @ json_skills resume_json;
          n = length (remdups skills_found);
          score = (if n \<ge> 10 then 100 else if n \<ge> 7 then 80 else if n \<ge> 5 then 60
                   else if n \<ge> 3 then 40 else if n \<ge> 1 then 20 else 0);
          self =
            (if n < 5 then
               append_issue self ''skills'' ''major''
                 (pstr ''Limited skills identified. Found: '' @ str_nat n @ pstr '' relevant skills'')
                 (pstr ''Add more specific technical and soft skills to your resume'')
             else self)
      in (score, self))"

subsection \<open>\<open>_check_experience\<close>\<close>

definition experience_keywords :: "pystr list" where
  "experience_keywords =
     map pstr [''experience'', ''work'', ''employment'', ''job'', ''position'', ''role'']"

definition job_patterns :: "regex list" where
  "job_patterns = [
     seqs [Bnd, alts [lit ''at'', ch CHR ''@''], plus (Chr space_cls), Chr upper_az,
           plus (Chr (lower_az @ upper_az @ space_cls @ cls ''&''))],
     seqs [Bnd,
           alts (map lit [''software'', ''engineer'', ''developer'', ''manager'', ''analyst'',
             ''specialist'', ''coordinator'', ''director'', ''lead'', ''senior'', ''junior'']),
           Bnd]]"

definition exp_keys :: "pystr list" where
  "exp_keys = map pstr [''experience'', ''work_experience'', ''employment'', ''jobs'']"

definition nonempty_list :: "pyval option \<Rightarrow> bool" where
  "nonempty_list v = (case v of Some (PyList (x # xs)) \<Rightarrow> True | _ \<Rightarrow> False)"

text \<open>The loop over \<open>exp_keys\<close>, left by \<open>break\<close> at the first list that is not empty.\<close>

fun exp_loop :: "pydict \<Rightarrow> pystr list \<Rightarrow> rat \<Rightarrow> rat" where
  "exp_loop resume_json [] sc = sc"
| "exp_loop resume_json (key # keys) sc =
     (if has_key resume_json (lower key) then
        (if nonempty_list (map_of resume_json (lower key)) then sc + 30
         else exp_loop resume_json keys sc)
      else if has_key resume_json key then
        (if nonempty_list (map_of resume_json key) then sc + 30
         else exp_loop resume_json keys sc)
      else exp_loop resume_json keys sc)"

definition check_experience :: "ATSChecker \<Rightarrow> pydict \<Rightarrow> pystr \<Rightarrow> rat \<times> ATSChecker" where
  "check_experience self resume_json raw_text =
     (let score = 0;
          text_lower = lower raw_text;
          experience_found = list_ex (\<lambda>keyword. py_in keyword text_lower) experience_keywords;
          score = (if experience_found then score + 30 else score);
          pattern_matches =
            sum_list (map (\<lambda>pattern. findall_count False pattern text_lower) job_patterns);
          score = (if pattern_matches \<ge> 5 then score + 40
                   else if pattern_matches \<ge> 3 then score + 30
                   else if pattern_matches \<ge> 1 then score + 20 else score);
          score = (if resume_json \<noteq> [] then exp_loop resume_json exp_keys score else score);
          self =
            (if score < 50 then
               append_issue self ''experience'' ''major''
                 (pstr ''Work experience section is unclear or missing'')
                 (pstr ''Add a clear work experience section with job titles, companies, and dates'')
             else self)
      in (min 100 score, self))"

subsection \<open>\<open>_check_dates\<close>\<close>

definition date_patterns :: "regex list" where
  "date_patterns = [
     seqs [Bnd, alts [lit ''19'', lit ''20''], rep 2 (Chr digit), Bnd],
     seqs [Bnd,
           alts (map lit [''Jan'', ''Feb'', ''Mar'', ''Apr'', ''May'', ''Jun'', ''Jul'', ''Aug'',
             ''Sep'', ''Oct'', ''Nov'', ''Dec'']),
           Star (Chr lower_az), plus (Chr space_cls), rep 4 (Chr digit), Bnd],
     seqs [Bnd, Chr digit, opt (Chr digit), Chr (cls ''/-''), rep 4 (Chr digit), Bnd],
     seqs [Bnd,
           alts (map lit [''January'', ''February'', ''March'', ''April'', ''May'', ''June'',
             ''July'', ''August'', ''September'', ''October'', ''November'', ''December'']),
           plus (Chr space_cls), rep 4 (Chr digit), Bnd]]"

definition check_dates :: "ATSChecker \<Rightarrow> pydict \<Rightarrow> pystr \<Rightarrow> rat \<times> ATSChecker" where
  "check_dates self resume_json raw_text =
     (let total_dates =
            sum_list (map (\<lambda>pattern. findall_count True pattern raw_text) date_patterns);
          score = (if total_dates \<ge> 6 then 100 else if total_dates \<ge> 4 then 80
                   else if total_dates \<ge> 2 then 60 else if total_dates \<ge> 1 then 40 else 0);
          self =
            (if total_dates < 2 then
               append_issue self ''dates'' ''major''
                 (pstr ''Limited date information found ('' @ str_nat total_dates @ pstr '' dates)'')
                 (pstr ''Add dates for education, work experience, and certifications'')
             else self)
      in (score, self))"

subsection \<open>\<open>_check_fonts_images\<close>\<close>

definition image_indicators :: "pystr list" where
  "image_indicators = map pstr [''image'', ''img'', ''photo'', ''picture'', ''logo'', ''graphic'']"

definition special_chars :: "pystr list" where
  "special_chars = [[169], [174], [8482], [9702], [9642], [9643], [9670], [9671], [9733], [9734]]"

definition check_fonts_images :: "ATSChecker \<Rightarrow> pydict \<Rightarrow> pystr \<Rightarrow> rat \<times> ATSChecker" where
  "check_fonts_images self resume_json raw_text =
     (let score = 100;
          text_lower = lower raw_text;
          image_count = count_all image_indicators text_lower;
          (score, self) =
            (if image_count > 0 then
               (score - 20, append_issue self ''fonts_images'' ''minor''
                  (pstr ''Found '' @ str_nat image_count @ pstr '' potential image references'')
                  (pstr ''Avoid images, logos, or graphics in your resume for better ATS compatibility''))
             else (score, self));
          special_char_count = count_all special_chars raw_text;
          (score, self) =
            (if special_char_count > 5 then
               (score - 10, append_issue self ''fonts_images'' ''minor''
                  (pstr ''Found '' @ str_nat special_char_count @ pstr '' special characters'')
                  (pstr ''Use standard bullet points and characters for better ATS compatibility''))
             else (score, self))
      in (max 0 score, self))"

subsection \<open>\<open>_check_length\<close>\<close>

definition check_length :: "ATSChecker \<Rightarrow> pystr \<Rightarrow> rat \<times> ATSChecker" where
  "check_length self raw_text =
     (let word_count = length (split_ws raw_text) in
      if OPTIMAL_LENGTH_MIN \<le> word_count \<and> word_count \<le> OPTIMAL_LENGTH_MAX then (100, self)
      else if word_count < OPTIMAL_LENGTH_MIN then
        (60, append_issue self ''length'' ''major''
               (pstr ''Resume is too short ('' @ str_nat word_count @ pstr '' words)'')
               (pstr ''Aim for '' @ str_nat OPTIMAL_LENGTH_MIN @ pstr ''-'' @
                  str_nat OPTIMAL_LENGTH_MAX @ pstr '' words for optimal length''))
      else
        (80, append_issue self ''length'' ''minor''
               (pstr ''Resume is long ('' @ str_nat word_count @ pstr '' words)'')
               (pstr ''Consider condensing to '' @ str_nat OPTIMAL_LENGTH_MAX @
                  pstr '' words or less'')))"

subsection \<open>Overall score, confidence and the report\<close>

text \<open>
  \<open>round(x, 1)\<close> of a double: the exact value of \<open>x\<close> is rounded to the nearest tenth,
  a tie going to the even one, and the result is the double nearest to that decimal.
\<close>

definition py_round1 :: "rat \<Rightarrow> rat" where
  "py_round1 x = fl_round (of_int (round_half_even (x * 10)) / 10)"

definition calculate_overall_score :: "ATSBreakdown \<Rightarrow> rat" where
  "calculate_overall_score b =
     (let total_score = 0;
          total_score =
            fl_add total_score (fl_mul (file_text_extractable b) (weight ''file_text_extractable''));
          total_score = fl_add total_score (fl_mul (layout b) (weight ''layout''));
          total_score = fl_add total_score (fl_mul (headers b) (weight ''headers''));
          total_score = fl_add total_score (fl_mul (contact b) (weight ''contact''));
          total_score = fl_add total_score (fl_mul (skills b) (weight ''skills''));
          total_score = fl_add total_score (fl_mul (experience b) (weight ''experience''));
          total_score = fl_add total_score (fl_mul (dates b) (weight ''dates''));
          total_score = fl_add total_score (fl_mul (fonts_images b) (weight ''fonts_images''));
          total_score = fl_add total_score (fl_mul (length_score b) (weight ''length''))
      in py_round1 total_score)"

definition determine_confidence :: "ATSBreakdown \<Rightarrow> nat \<Rightarrow> ATSConfidence" where
  "determine_confidence b text_length =
     (if text_length < 200 then LOW else if text_length < 500 then MEDIUM else HIGH)"

text \<open>
  \<open>ATSChecker.run_ats_checks\<close>: \<open>None\<close> stands for an absent argument. The checks run
  in the order of the arguments of \<open>ATSBreakdown(...)\<close> and each one gets the checker
  as the one before left it. The result is the report and the checker after the call.
  The report holds the list that the accumulator is bound to at the end of the call;
  the next call binds the accumulator to a new list, so the list of an earlier report
  is not changed by it.
\<close>

definition run_checks ::
  "(pystr list \<Rightarrow> pystr list) \<Rightarrow> ATSChecker \<Rightarrow> pydict \<Rightarrow> pystr \<Rightarrow> ATSBreakdown \<times> ATSChecker" where
  "run_checks set_iter self resume_json raw_text =
     (let (s1, self) = check_file_text_extractable self raw_text;
          (s2, self) = check_layout self resume_json raw_text;
          (s3, self) = check_headers set_iter self resume_json raw_text;
          (s4, self) = check_contact self resume_json raw_text;
          (s5, self) = check_skills self resume_json raw_text;
          (s6, self) = check_experience self resume_json raw_text;
          (s7, self) = check_dates self resume_json raw_text;
          (s8, self) = check_fonts_images self resume_json raw_text;
          (s9, self) = check_length self raw_text
      in (\<lparr>file_text_extractable = s1, layout = s2, headers = s3, contact = s4, skills = s5,
            experience = s6, dates = s7, fonts_images = s8, length_score = s9\<rparr>, self))"

definition run_ats_checks ::
  "(pystr list \<Rightarrow> pystr list) \<Rightarrow> ATSChecker \<Rightarrow> pydict option \<Rightarrow> pystr option
     \<Rightarrow> ATSReport \<times> ATSChecker" where
  "run_ats_checks set_iter self resume_json raw_text =
     (let resume_json = (case resume_json of None \<Rightarrow> [] | Some j \<Rightarrow> j);
          raw_text = (case raw_text of None \<Rightarrow> [] | Some t \<Rightarrow> t);
          self = self\<lparr>self_issues := [], self_recommended_actions := []\<rparr>;
          (b, self) = run_checks set_iter self resume_json raw_text;
          overall_score = calculate_overall_score b;
          conf = determine_confidence b (length raw_text)
      in (\<lparr>score = overall_score, breakdown = b, issues = self_issues self,
            recommended_actions = self_recommended_actions self, confidence = conf\<rparr>, self))"

text \<open>The module's \<open>run_ats_checks\<close>: a new checker for every call.\<close>

definition run_ats_checks_fresh ::
  "(pystr list \<Rightarrow> pystr list) \<Rightarrow> pydict option \<Rightarrow> pystr option \<Rightarrow> ATSReport" where
  "run_ats_checks_fresh set_iter resume_json raw_text =
     fst (run_ats_checks set_iter init_checker resume_json raw_text)"


section \<open>The weighted sum as the specification words it\<close>




text \<open>The dot product of real numbers.\<close>

definition exact_dot_product :: "rat list \<Rightarrow> rat list \<Rightarrow> rat" where
  "exact_dot_product xs ys = sum_list (map2 (*) xs ys)"

section \<open>The tool registry (\<open>app/tools/registry.py\<close>)\<close>

record ToolResult =
  success :: bool
  output_text :: pystr
  error :: pystr

definition failure :: "pystr \<Rightarrow> ToolResult" where
  "failure e = \<lparr>success = False, output_text = [], error = e\<rparr>"

definition succeeded :: "pystr \<Rightarrow> ToolResult" where
  "succeeded out = \<lparr>success = True, output_text = out, error = []\<rparr>"

text \<open>
  An exception is a value: its class, as far as the handlers of the source tell classes
  apart, and its message \<open>str(e)\<close>. \<open>UnicodeDecodeError\<close> is a subclass of
  \<open>ValueError\<close>; \<open>OtherException\<close> is any other subclass of \<open>Exception\<close>.
\<close>

datatype pyexc =
    ZeroDivisionError pystr
  | ValueError pystr
  | UnicodeDecodeError pystr
  | SyntaxError pystr
  | TypeError pystr
  | PermissionError pystr
  | RuntimeError pystr
  | OtherException pystr

fun exc_str :: "pyexc \<Rightarrow> pystr" where
  "exc_str (ZeroDivisionError m) = m"
| "exc_str (ValueError m) = m"
| "exc_str (UnicodeDecodeError m) = m"
| "exc_str (SyntaxError m) = m"
| "exc_str (TypeError m) = m"
| "exc_str (PermissionError m) = m"
| "exc_str (RuntimeError m) = m"
| "exc_str (OtherException m) = m"

subsection \<open>\<open>echo_tool\<close>\<close>


subsection \<open>\<open>calc_tool\<close>\<close>

text \<open>
  The two allow-lists of the source. \<open>calc_tool\<close> binds them and never reads them.
\<close>

definition allowed_chars :: pystr where
  "allowed_chars = pstr ''0123456789+-*/.() ''"

definition allowed_functions :: "pystr list" where
  "allowed_functions =
     map pstr [''sqrt'', ''abs'', ''sin'', ''cos'', ''tan'', ''log'', ''exp'', ''pi'', ''e'']"

definition dangerous_patterns :: "pystr list" where
  "dangerous_patterns =
     map pstr [''__'', ''import'', ''exec'', ''eval'', ''open'', ''file'', ''input'']"

text \<open>The names bound in \<open>safe_globals\<close>, next to the empty \<open>__builtins__\<close>.\<close>

definition safe_globals :: "pystr list" where
  "safe_globals = map pstr [''abs'', ''round'', ''min'', ''max'', ''pow'', ''sqrt'', ''sin'',
     ''cos'', ''tan'', ''log'', ''exp'', ''pi'', ''e'']"

text \<open>
  The value of \<open>eval(expression, safe_globals, safe_locals)\<close>, as far as the formatting
  of the source looks at it: a finite float, a float that is infinite or not a number
  (given by its \<open>.6f\<close> text), an \<open>int\<close>, or any other object (given by its \<open>str\<close>).
  The evaluator itself is the Python interpreter: a parameter of \<open>calc_tool\<close>.
\<close>

datatype eval_value =
    EvFloat rat
  | EvNonFinite pystr
  | EvInt int
  | EvOther pystr

type_synonym evaluator = "pystr \<Rightarrow> pyexc + eval_value"

definition str_int :: "int \<Rightarrow> pystr" where
  "str_int i = (if i < 0 then pstr ''-'' @ str_nat (nat (- i)) else str_nat (nat i))"

definition rstrip_char :: "int \<Rightarrow> pystr \<Rightarrow> pystr" where
  "rstrip_char c s = rev (dropWhile (\<lambda>x. x = c) (rev s))"

text \<open>\<open>f"{x:.6f}"\<close> of a finite float.\<close>

definition fmt6 :: "rat \<Rightarrow> pystr" where
  "fmt6 x =
     (let n = nat (round_half_even (\<bar>x\<bar> * 1000000));
          frac = str_nat (n mod 1000000)
      in (if x < 0 then pstr ''-'' else []) @ str_nat (n div 1000000) @ pstr ''.'' @
         replicate (6 - length frac) 48 @ frac)"

definition format_result :: "eval_value \<Rightarrow> pystr" where
  "format_result v =
     (case v of
        EvFloat x \<Rightarrow>
          (if x = of_int \<lfloor>x\<rfloor> then str_int \<lfloor>x\<rfloor>
           else rstrip_char 46 (rstrip_char 48 (fmt6 x)))
      | EvNonFinite s \<Rightarrow> rstrip_char 46 (rstrip_char 48 s)
      | EvInt i \<Rightarrow> str_int i
      | EvOther s \<Rightarrow> s)"

text \<open>The first pattern of the list that occurs in the lower-cased expression.\<close>

fun first_dangerous :: "pystr list \<Rightarrow> pystr \<Rightarrow> pystr option" where
  "first_dangerous [] expression = None"
| "first_dangerous (pattern # patterns) expression =
     (if py_in pattern (lower expression) then Some pattern
      else first_dangerous patterns expression)"

text \<open>The handlers of \<open>calc_tool\<close>, in the order of the source.\<close>

fun calc_except :: "pyexc \<Rightarrow> ToolResult" where
  "calc_except (ZeroDivisionError m) = failure (pstr ''Division by zero'')"
| "calc_except (ValueError m) = failure (pstr ''Invalid value: '' @ m)"
| "calc_except (UnicodeDecodeError m) = failure (pstr ''Invalid value: '' @ m)"
| "calc_except (SyntaxError m) = failure (pstr ''Invalid syntax: '' @ m)"
| "calc_except e = failure (pstr ''Calculation error: '' @ exc_str e)"

text \<open>What \<open>calc_tool\<close> makes of the outcome of the evaluation.\<close>

definition calc_finish :: "pyexc + eval_value \<Rightarrow> ToolResult" where
  "calc_finish r = (case r of Inl e \<Rightarrow> calc_except e | Inr v \<Rightarrow> succeeded (format_result v))"

definition calc_tool :: "evaluator \<Rightarrow> pyval \<Rightarrow> ToolResult" where
  "calc_tool py_eval expression =
     (case expression of
        PyStr e \<Rightarrow>
          (case first_dangerous dangerous_patterns e of
             Some pattern \<Rightarrow>
               failure (pstr ''Dangerous pattern '' @ repr_str pattern @
                        pstr '' detected in expression'')
           | None \<Rightarrow> calc_finish (py_eval e))
      | _ \<Rightarrow> failure (pstr ''Expression must be a string''))"

text \<open>
  The restriction as the specification words it: every character is a digit, one of
  \<open>+-*/.() \<close> or part of a name, and every name (a maximal run of letters and
  underscores) is one of the allow-listed names.
\<close>

definition name_char :: "int \<Rightarrow> bool" where
  "name_char c = ((65 \<le> c \<and> c \<le> 90) \<or> c = 95 \<or> (97 \<le> c \<and> c \<le> 122))"

fun names_acc :: "pystr \<Rightarrow> pystr \<Rightarrow> pystr list" where
  "names_acc cur [] = (if cur = [] then [] else [rev cur])"
| "names_acc cur (c # cs) =
     (if name_char c then names_acc (c # cur) cs
      else if cur = [] then names_acc [] cs else rev cur # names_acc [] cs)"

definition spec_allowed_expression :: "pystr \<Rightarrow> bool" where
  "spec_allowed_expression e =
     (list_all (\<lambda>c. name_char c \<or> c \<in> set allowed_chars) e \<and>
      list_all (\<lambda>n. n \<in> set (allowed_functions @ safe_globals)) (names_acc [] e))"

subsection \<open>Text decoding of \<open>open(..., errors=...)\<close>\<close>

text \<open>
  A byte is an integer between 0 and 255. \<open>decode_utf8\<close> follows the UTF-8 decoder of
  Python: a sequence that is not well formed is an error at its first bytes; with
  \<open>errors='strict'\<close> the error is raised as \<open>UnicodeDecodeError\<close>, with
  \<open>errors='ignore'\<close> those bytes are left out and decoding goes on with the byte that
  did not fit. The state is the sequence begun: the number of bytes still to come, the
  bits read so far and the range the next byte must lie in.
\<close>

datatype errors_mode = Strict | Ignore

datatype encoding = Utf8 | Utf16

datatype utf8_lead = Ascii | Lead nat int int int | Invalid

definition utf8_lead_of :: "int \<Rightarrow> utf8_lead" where
  "utf8_lead_of b =
     (if 0 \<le> b \<and> b < 128 then Ascii
      else if 194 \<le> b \<and> b \<le> 223 then Lead 1 (b - 192) 128 191
      else if b = 224 then Lead 2 0 160 191
      else if (225 \<le> b \<and> b \<le> 236) \<or> b = 238 \<or> b = 239 then Lead 2 (b - 224) 128 191
      else if b = 237 then Lead 2 13 128 159
      else if b = 240 then Lead 3 0 144 191
      else if 241 \<le> b \<and> b \<le> 243 then Lead 3 (b - 240) 128 191
      else if b = 244 then Lead 3 4 128 143
      else Invalid)"

definition econs :: "int \<Rightarrow> pyexc + pystr \<Rightarrow> pyexc + pystr" where
  "econs c r = (case r of Inl e \<Rightarrow> Inl e | Inr s \<Rightarrow> Inr (c # s))"

definition decode_error :: "errors_mode \<Rightarrow> string \<Rightarrow> pyexc + pystr \<Rightarrow> pyexc + pystr" where
  "decode_error mode reason rest =
     (case mode of Strict \<Rightarrow> Inl (UnicodeDecodeError (pstr reason)) | Ignore \<Rightarrow> rest)"

fun utf8_dec :: "errors_mode \<Rightarrow> (nat \<times> int \<times> int \<times> int) option \<Rightarrow> int list \<Rightarrow> pyexc + pystr" where
  "utf8_dec mode None [] = Inr []"
| "utf8_dec mode (Some st) [] = decode_error mode ''unexpected end of data'' (Inr [])"
| "utf8_dec mode None (b # bs) =
     (case utf8_lead_of b of
        Ascii \<Rightarrow> econs b (utf8_dec mode None bs)
      | Lead n a lo hi \<Rightarrow> utf8_dec mode (Some (n, a, lo, hi)) bs
      | Invalid \<Rightarrow> decode_error mode ''invalid start byte'' (utf8_dec mode None bs))"
| "utf8_dec mode (Some (n, a, lo, hi)) (b # bs) =
     (if lo \<le> b \<and> b \<le> hi then
        (if n \<le> 1 then econs (a * 64 + (b - 128)) (utf8_dec mode None bs)
         else utf8_dec mode (Some (n - 1, a * 64 + (b - 128), 128, 191)) bs)
      else decode_error mode ''invalid continuation byte'' (utf8_dec mode None (b # bs)))"

definition decode_utf8 :: "errors_mode \<Rightarrow> int list \<Rightarrow> pyexc + pystr" where
  "decode_utf8 mode bs = utf8_dec mode None bs"

text \<open>
  \<open>utf-16\<close>: a byte order mark chooses the byte order and is left out; without it the
  order is little-endian. A surrogate that is not part of a pair, and a byte or a high
  surrogate left over at the end, are errors.
\<close>

fun utf16_units :: "bool \<Rightarrow> int list \<Rightarrow> int list \<times> bool" where
  "utf16_units le [] = ([], False)"
| "utf16_units le [b] = ([], True)"
| "utf16_units le (b # c # bs) =
     (let (us, odd_byte) = utf16_units le bs
      in ((if le then c * 256 + b else b * 256 + c) # us, odd_byte))"

fun utf16_dec :: "errors_mode \<Rightarrow> int list \<Rightarrow> bool \<Rightarrow> pyexc + pystr" where
  "utf16_dec mode [] odd_byte =
     (if odd_byte then decode_error mode ''truncated data'' (Inr []) else Inr [])"
| "utf16_dec mode [u] odd_byte =
     (if 55296 \<le> u \<and> u \<le> 56319 then
        decode_error mode ''unexpected end of data'' (Inr [])
      else if 56320 \<le> u \<and> u \<le> 57343 then
        decode_error mode ''illegal encoding'' (utf16_dec mode [] odd_byte)
      else econs u (utf16_dec mode [] odd_byte))"
| "utf16_dec mode (u # v # us) odd_byte =
     (if 55296 \<le> u \<and> u \<le> 56319 then
        (if 56320 \<le> v \<and> v \<le> 57343 then
           econs (65536 + (u - 55296) * 1024 + (v - 56320)) (utf16_dec mode us odd_byte)
         else decode_error mode ''illegal UTF-16 surrogate'' (utf16_dec mode (v # us) odd_byte))
      else if 56320 \<le> u \<and> u \<le> 57343 then
        decode_error mode ''illegal encoding'' (utf16_dec mode (v # us) odd_byte)
      else econs u (utf16_dec mode (v # us) odd_byte))"

definition decode_utf16 :: "errors_mode \<Rightarrow> int list \<Rightarrow> pyexc + pystr" where
  "decode_utf16 mode bs =
     (let (le, body) =
            (case bs of
               b # c # rest \<Rightarrow>
                 (if b = 255 \<and> c = 254 then (True, rest)
                  else if b = 254 \<and> c = 255 then (False, rest) else (True, bs))
             | _ \<Rightarrow> (True, bs));
          (us, odd_byte) = utf16_units le body
      in utf16_dec mode us odd_byte)"

definition decode :: "encoding \<Rightarrow> errors_mode \<Rightarrow> int list \<Rightarrow> pyexc + pystr" where
  "decode enc mode bs = (case enc of Utf8 \<Rightarrow> decode_utf8 mode bs | Utf16 \<Rightarrow> decode_utf16 mode bs)"

text \<open>Text mode reads \<open>\r\n\<close> and \<open>\r\<close> as \<open>\n\<close>.\<close>

fun universal_newlines :: "pystr \<Rightarrow> pystr" where
  "universal_newlines [] = []"
| "universal_newlines [c] = [if c = 13 then 10 else c]"
| "universal_newlines (c # d # cs) =
     (if c = 13 \<and> d = 10 then 10 # universal_newlines cs
      else if c = 13 then 10 # universal_newlines (d # cs)
      else c # universal_newlines (d # cs))"

subsection \<open>The file system\<close>

text \<open>
  The file system is what the calls of \<open>pathlib\<close> and \<open>open\<close> answer during one call of
  a tool. A path is the list of the components of an absolute path. A call returns
  its answer or raises: \<open>PermissionError\<close>, or another exception (another \<open>OSError\<close>,
  a \<open>ValueError\<close> for a null character in the path, ...). \<open>fs_read_bytes\<close> is
  \<open>open\<close> followed by the read of the whole file, before decoding.
\<close>

datatype oserror = PermissionDenied pystr | OtherFailure pystr

datatype entry_kind = FileEntry | DirEntry | OtherEntry

type_synonym path = "pystr list"

record filesystem =
  fs_cwd :: "oserror + path"
  fs_resolve :: "pystr \<Rightarrow> oserror + path"
  fs_exists :: "path \<Rightarrow> oserror + bool"
  fs_is_file :: "path \<Rightarrow> oserror + bool"
  fs_is_dir :: "path \<Rightarrow> oserror + bool"
  fs_st_size :: "path \<Rightarrow> oserror + int"
  fs_read_bytes :: "path \<Rightarrow> oserror + int list"
  fs_iterdir :: "path \<Rightarrow> oserror + (pystr \<times> entry_kind) list"

fun os_exc :: "oserror \<Rightarrow> pyexc" where
  "os_exc (PermissionDenied m) = PermissionError m"
| "os_exc (OtherFailure m) = OtherException m"

text \<open>
  Every call to the file system is recorded, in order: the second component of the
  result of a tool is the list of the calls it made.
\<close>

datatype fs_op =
    OpResolve pystr
  | OpCwd
  | OpExists path
  | OpIsFile path
  | OpIsDir path
  | OpStat path
  | OpOpenRead path encoding
  | OpIterdir path

type_synonym 'a io = "(pyexc + 'a) \<times> fs_op list"

definition io_return :: "'a \<Rightarrow> 'a io" where
  "io_return x = (Inr x, [])"

definition io_call :: "fs_op \<Rightarrow> oserror + 'a \<Rightarrow> 'a io" where
  "io_call opn r = (case r of Inl e \<Rightarrow> (Inl (os_exc e), [opn]) | Inr x \<Rightarrow> (Inr x, [opn]))"

definition io_bind :: "'a io \<Rightarrow> ('a \<Rightarrow> 'b io) \<Rightarrow> 'b io" where
  "io_bind m f =
     (case fst m of
        Inl e \<Rightarrow> (Inl e, snd m)
      | Inr x \<Rightarrow> (fst (f x), snd m @ snd (f x)))"

text \<open>\<open>os.path.isabs\<close> of POSIX, and \<open>path.relative_to(current_dir)\<close> not raising.\<close>

definition isabs :: "pystr \<Rightarrow> bool" where
  "isabs p = (case p of [] \<Rightarrow> False | c # cs \<Rightarrow> c = 47)"

definition is_under :: "path \<Rightarrow> path \<Rightarrow> bool" where
  "is_under current_dir p = (take (length current_dir) p = current_dir)"

subsection \<open>\<open>read_file_tool\<close>\<close>

text \<open>\<open>with open(path, 'r', encoding=enc, errors='ignore') as f: content = f.read()\<close>\<close>

definition open_read :: "filesystem \<Rightarrow> path \<Rightarrow> encoding \<Rightarrow> pystr io" where
  "open_read fs p enc =
     io_bind (io_call (OpOpenRead p enc) (fs_read_bytes fs p))
       (\<lambda>bs. (case decode enc Ignore bs of
                 Inl e \<Rightarrow> (Inl e, [])
               | Inr s \<Rightarrow> io_return (universal_newlines s)))"

text \<open>The inner \<open>try\<close>: a \<open>UnicodeDecodeError\<close> of the first read starts the second.\<close>

definition read_content :: "filesystem \<Rightarrow> path \<Rightarrow> pystr io" where
  "read_content fs p =
     (case fst (open_read fs p Utf8) of
        Inl (UnicodeDecodeError m) \<Rightarrow>
          (fst (open_read fs p Utf16), snd (open_read fs p Utf8) @ snd (open_read fs p Utf16))
      | _ \<Rightarrow> open_read fs p Utf8)"

fun read_file_except :: "pyexc \<Rightarrow> ToolResult" where
  "read_file_except (PermissionError m) = failure (pstr ''Permission denied'')"
| "read_file_except (UnicodeDecodeError m) = failure (pstr ''File contains invalid characters'')"
| "read_file_except e = failure (pstr ''File read error: '' @ exc_str e)"

definition read_file_body :: "filesystem \<Rightarrow> pystr \<Rightarrow> ToolResult io" where
  "read_file_body fs filepath =
     io_bind (io_call (OpResolve filepath) (fs_resolve fs filepath)) (\<lambda>p.
     io_bind (io_call OpCwd (fs_cwd fs)) (\<lambda>current_dir.
       if \<not> is_under current_dir p then
         io_return (failure (pstr ''File must be in current directory or subdirectories''))
       else
     io_bind (io_call (OpExists p) (fs_exists fs p)) (\<lambda>ex.
       if \<not> ex then io_return (failure (pstr ''File not found''))
       else
     io_bind (io_call (OpIsFile p) (fs_is_file fs p)) (\<lambda>isf.
       if \<not> isf then io_return (failure (pstr ''Path is not a file''))
       else
     io_bind (io_call (OpStat p) (fs_st_size fs p)) (\<lambda>st_size.
       if st_size > 1024 * 1024 then io_return (failure (pstr ''File too large (max 1MB)''))
       else
     io_bind (read_content fs p) (\<lambda>content.
       io_return (succeeded content)))))))"

definition read_file_tool :: "filesystem \<Rightarrow> pyval \<Rightarrow> ToolResult \<times> fs_op list" where
  "read_file_tool fs filepath =
     (case filepath of
        PyStr p \<Rightarrow>
          (if py_in (pstr ''..'') p \<or> isabs p then
             (failure (pstr ''Path traversal not allowed. Use relative paths only.''), [])
           else
             (case fst (read_file_body fs p) of
                Inl e \<Rightarrow> (read_file_except e, snd (read_file_body fs p))
              | Inr r \<Rightarrow> (r, snd (read_file_body fs p))))
      | _ \<Rightarrow> (failure (pstr ''Filepath must be a string''), []))"

subsection \<open>\<open>list_files_tool\<close>\<close>

fun str_le :: "pystr \<Rightarrow> pystr \<Rightarrow> bool" where
  "str_le [] t = True"
| "str_le (c # cs) [] = False"
| "str_le (c # cs) (d # ds) = (c < d \<or> (c = d \<and> str_le cs ds))"

fun insert_sorted :: "pystr \<Rightarrow> pystr list \<Rightarrow> pystr list" where
  "insert_sorted x [] = [x]"
| "insert_sorted x (y # ys) = (if str_le x y then x # y # ys else y # insert_sorted x ys)"

definition sort_strs :: "pystr list \<Rightarrow> pystr list" where
  "sort_strs xs = foldr insert_sorted xs []"

text \<open>The loop over \<open>path.iterdir()\<close>: an entry that is neither file nor directory is
  left out.\<close>

fun item_labels :: "(pystr \<times> entry_kind) list \<Rightarrow> pystr list" where
  "item_labels [] = []"
| "item_labels ((name, FileEntry) # es) = (pstr ''FILE: '' @ name) # item_labels es"
| "item_labels ((name, DirEntry) # es) = (pstr ''DIR:  '' @ name) # item_labels es"
| "item_labels ((name, OtherEntry) # es) = item_labels es"

definition list_files_body :: "filesystem \<Rightarrow> pystr \<Rightarrow> ToolResult io" where
  "list_files_body fs directory =
     io_bind (io_call (OpResolve directory) (fs_resolve fs directory)) (\<lambda>p.
     io_bind (io_call OpCwd (fs_cwd fs)) (\<lambda>current_dir.
       if \<not> is_under current_dir p then
         io_return (failure (pstr ''Directory must be in current directory or subdirectories''))
       else
     io_bind (io_call (OpExists p) (fs_exists fs p)) (\<lambda>ex.
       if \<not> ex then io_return (failure (pstr ''Directory not found''))
       else
     io_bind (io_call (OpIsDir p) (fs_is_dir fs p)) (\<lambda>isd.
       if \<not> isd then io_return (failure (pstr ''Path is not a directory''))
       else
         (case fs_iterdir fs p of
            Inl (PermissionDenied m) \<Rightarrow> (Inr (failure (pstr ''Permission denied'')), [OpIterdir p])
          | Inl (OtherFailure m) \<Rightarrow> (Inl (OtherException m), [OpIterdir p])
          | Inr entries \<Rightarrow>
              (let items = sort_strs (item_labels entries)
               in (Inr (succeeded (if items \<noteq> [] then join [10] items
                                   else pstr ''Directory is empty'')), [OpIterdir p])))))))"

definition list_files_tool :: "filesystem \<Rightarrow> pyval \<Rightarrow> ToolResult \<times> fs_op list" where
  "list_files_tool fs directory =
     (case directory of
        PyStr d \<Rightarrow>
          (if py_in (pstr ''..'') d \<or> isabs d then
             (failure (pstr ''Path traversal not allowed. Use relative paths only.''), [])
           else
             (case fst (list_files_body fs d) of
                Inl e \<Rightarrow> (failure (pstr ''Directory listing error: '' @ exc_str e),
                           snd (list_files_body fs d))
              | Inr r \<Rightarrow> (r, snd (list_files_body fs d))))
      | _ \<Rightarrow> (failure (pstr ''Directory must be a string''), []))"

text \<open>Two file systems for the examples: the working directory is \<open>/srv/app\<close>.\<close>

definition example_fs :: "int list \<Rightarrow> filesystem" where
  "example_fs bytes =
     \<lparr>fs_cwd = Inr [pstr ''srv'', pstr ''app''],
      fs_resolve = (\<lambda>p. if p = pstr ''link'' then Inr [pstr ''etc'', pstr ''passwd'']
                         else if p = pstr ''.'' then Inr [pstr ''srv'', pstr ''app'']
                         else Inr [pstr ''srv'', pstr ''app'', p]),
      fs_exists = (\<lambda>p. Inr True),
      fs_is_file = (\<lambda>p. Inr True),
      fs_is_dir = (\<lambda>p. Inr False),
      fs_st_size = (\<lambda>p. Inr (int (length bytes))),
      fs_read_bytes = (\<lambda>p. Inr bytes),
      fs_iterdir = (\<lambda>p. Inl (OtherFailure (pstr ''Not a directory'')))\<rparr>"

definition failing_fs :: filesystem where
  "failing_fs = (example_fs [])
     \<lparr>fs_read_bytes := (\<lambda>p. Inl (OtherFailure (pstr ''[Errno 24] Too many open files'')))\<rparr>"

subsection \<open>\<open>pdf_to_text_tool\<close>\<close>




subsection \<open>The registry \<open>TOOLS\<close>\<close>

datatype tool_function = EchoTool | CalcTool | ReadFileTool | ListFilesTool | PdfToTextTool

record tool_schema =
  tool_name :: pystr
  description :: pystr
  properties :: "(pystr \<times> pystr) list"
  required :: "pystr list"
  tool_impl :: tool_function

definition TOOLS :: "(pystr \<times> tool_schema) list" where
  "TOOLS = [
     (pstr ''echo'',
      \<lparr>tool_name = pstr ''echo'',
       description = pstr ''Echo tool - returns the input text'',
       properties = [(pstr ''text'', pstr ''string'')],
       required = [pstr ''text''],
       tool_impl = EchoTool\<rparr>),
     (pstr ''calc'',
      \<lparr>tool_name = pstr ''calc'',
       description = pstr ''Calculator tool - evaluates simple mathematical expressions'',
       properties = [(pstr ''expression'', pstr ''string'')],
       required = [pstr ''expression''],
       tool_impl = CalcTool\<rparr>),
     (pstr ''read_file'',
      \<lparr>tool_name = pstr ''read_file'',
       description = pstr ''Read file tool - safely reads text files'',
       properties = [(pstr ''filepath'', pstr ''string'')],
       required = [pstr ''filepath''],
       tool_impl = ReadFileTool\<rparr>),
     (pstr ''list_files'',
      \<lparr>tool_name = pstr ''list_files'',
       description = pstr ''List files tool - safely lists files in a directory'',
       properties = [(pstr ''directory'', pstr ''string'')],
       required = [],
       tool_impl = ListFilesTool\<rparr>),
     (pstr ''pdf_to_text'',
      \<lparr>tool_name = pstr ''pdf_to_text'',
       description =
         pstr ''PDF text extraction tool - extracts text from PDF files using multiple methods'',
       properties = [(pstr ''filepath'', pstr ''string'')],
       required = [pstr ''filepath''],
       tool_impl = PdfToTextTool\<rparr>)]"


definition list_tools :: "(pystr \<times> pystr) list" where
  "list_tools = map (\<lambda>(name, tool). (name, description tool)) TOOLS"




section \<open>The tool executor (\<open>app/tools/executor.py\<close>)\<close>













subsection \<open>The outcomes of a call, as the specification names them\<close>






section \<open>Properties of the ATS checker\<close>








subsection \<open>The range of the category scores\<close>

lemma file_text_extractable_range:
  "0 \<le> fst (check_file_text_extractable self t) \<and> fst (check_file_text_extractable self t) \<le> 100"
  by (simp add: check_file_text_extractable_def Let_def)

lemma layout_range: "0 \<le> fst (check_layout self j t) \<and> fst (check_layout self j t) \<le> 100"
  by (simp add: check_layout_def Let_def split_def)

lemma headers_range:
  "0 \<le> fst (check_headers si self j t) \<and> fst (check_headers si self j t) \<le> 100"
  by (simp add: check_headers_def Let_def split_def)

lemma contact_loop_nonneg: "0 \<le> snd st \<Longrightarrow> 0 \<le> snd (contact_loop j ks st)"
  by (induction j ks st rule: contact_loop.induct) auto

lemma contact_range: "0 \<le> fst (check_contact self j t) \<and> fst (check_contact self j t) \<le> 100"
  by (simp add: check_contact_def Let_def split_def contact_loop_nonneg)

lemma skills_range: "0 \<le> fst (check_skills self j t) \<and> fst (check_skills self j t) \<le> 100"
  by (simp add: check_skills_def Let_def split_def)

lemma exp_loop_nonneg: "0 \<le> sc \<Longrightarrow> 0 \<le> exp_loop j ks sc"
  by (induction j ks sc rule: exp_loop.induct) auto

lemma experience_range:
  "0 \<le> fst (check_experience self j t) \<and> fst (check_experience self j t) \<le> 100"
  by (simp add: check_experience_def Let_def split_def exp_loop_nonneg)

lemma dates_range: "0 \<le> fst (check_dates self j t) \<and> fst (check_dates self j t) \<le> 100"
  by (simp add: check_dates_def Let_def split_def)

lemma fonts_images_range:
  "0 \<le> fst (check_fonts_images self j t) \<and> fst (check_fonts_images self j t) \<le> 100"
  by (simp add: check_fonts_images_def Let_def split_def)

lemma length_range: "0 \<le> fst (check_length self t) \<and> fst (check_length self t) \<le> 100"
  by (simp add: check_length_def Let_def split_def)

text \<open>
  C2. Each of the nine category checks returns a score between 0 and 100, for every
  checker state, every resume mapping and every raw text.
\<close>

theorem category_scores_in_range:
  "(0 \<le> fst (check_file_text_extractable self raw_text)
      \<and> fst (check_file_text_extractable self raw_text) \<le> 100)
   \<and> (0 \<le> fst (check_layout self resume_json raw_text)
      \<and> fst (check_layout self resume_json raw_text) \<le> 100)
   \<and> (0 \<le> fst (check_headers set_iter self resume_json raw_text)
      \<and> fst (check_headers set_iter self resume_json raw_text) \<le> 100)
   \<and> (0 \<le> fst (check_contact self resume_json raw_text)
      \<and> fst (check_contact self resume_json raw_text) \<le> 100)
   \<and> (0 \<le> fst (check_skills self resume_json raw_text)
      \<and> fst (check_skills self resume_json raw_text) \<le> 100)
   \<and> (0 \<le> fst (check_experience self resume_json raw_text)
      \<and> fst (check_experience self resume_json raw_text) \<le> 100)
   \<and> (0 \<le> fst (check_dates self resume_json raw_text)
      \<and> fst (check_dates self resume_json raw_text) \<le> 100)
   \<and> (0 \<le> fst (check_fonts_images self resume_json raw_text)
      \<and> fst (check_fonts_images self resume_json raw_text) \<le> 100)
   \<and> (0 \<le> fst (check_length self raw_text) \<and> fst (check_length self raw_text) \<le> 100)"
  by (simp add: file_text_extractable_range layout_range headers_range contact_range
      skills_range experience_range dates_range fonts_images_range length_range)

subsection \<open>Confidence\<close>

text \<open>
  C3. The confidence of the report depends on the length of the raw text alone: low
  below 200, medium from 200 to 499, high from 500 on; an absent text counts as empty.
  It is the value of \<open>_determine_confidence\<close> at that length for any breakdown at all.
\<close>

theorem confidence_from_length:
  "confidence (fst (run_ats_checks set_iter self resume_json (Some raw_text))) =
     (if length raw_text < 200 then LOW else if length raw_text < 500 then MEDIUM else HIGH)
   \<and> confidence (fst (run_ats_checks set_iter self resume_json None)) = LOW
   \<and> confidence (fst (run_ats_checks set_iter self resume_json (Some raw_text))) =
       determine_confidence b (length raw_text)
   \<and> determine_confidence b n = determine_confidence b' n"
  by (simp add: run_ats_checks_def Let_def split_def determine_confidence_def)

subsection \<open>No state from one call to the next\<close>

lemma reset_checker:
  "(self::ATSChecker)\<lparr>self_issues := [], self_recommended_actions := []\<rparr> = init_checker"
  by (simp add: init_checker_def)

lemma run_any_checker:
  "run_ats_checks si self j t = run_ats_checks si init_checker j t"
  by (simp add: run_ats_checks_def reset_checker)

text \<open>
  C8. A second call of \<open>run_ats_checks\<close> with the same arguments, on the checker the
  first call left, returns the same report as the first call on a new checker; the
  report of a call does not depend on the accumulators the checker held before it.
\<close>

theorem run_twice_identical:
  "(let (r1, c1) = run_ats_checks set_iter init_checker resume_json raw_text;
        (r2, c2) = run_ats_checks set_iter c1 resume_json raw_text
    in r1 = r2)
   \<and> fst (run_ats_checks set_iter self resume_json raw_text) =
       run_ats_checks_fresh set_iter resume_json raw_text"
proof -
  let ?r = "run_ats_checks set_iter init_checker resume_json raw_text"
  have a: "run_ats_checks set_iter (snd ?r) resume_json raw_text = ?r"
    by (rule run_any_checker)
  have b: "run_ats_checks set_iter self resume_json raw_text = ?r"
    by (rule run_any_checker)
  show ?thesis
    unfolding run_ats_checks_fresh_def split_def Let_def a b by simp
qed

subsection \<open>Scenario A\<close>

text \<open>
  C9. For the empty resume mapping and the raw text \<open>John Doe Software Engineer\<close> the
  report has the score 25 and low confidence. The contact check finds a location (the
  pattern of two capitalised words matches \<open>John Doe\<close>), scores 20 and files a major
  issue; the only critical issue of the report is the one of \<open>file_text_extractable\<close>.
\<close>

theorem scenario_a_report:
  "(let r = run_ats_checks_fresh set_iter (Some []) (Some (pstr ''John Doe Software Engineer''))
    in score r = 25 \<and> confidence r = LOW \<and> contact (breakdown r) = 20
       \<and> map category (filter (\<lambda>i. severity i = pstr ''critical'') (issues r)) =
           [pstr ''file_text_extractable'']
       \<and> map severity (filter (\<lambda>i. category i = pstr ''contact'') (issues r)) =
           [pstr ''major''])"
proof -
  let ?t = "pstr ''John Doe Software Engineer''"
  let ?rc = "run_checks set_iter init_checker [] ?t"
  let ?b = "\<lparr>file_text_extractable = 0, layout = 80, headers = 0, contact = 20, skills = 0,
    experience = 20, dates = 0, fonts_images = 100, length_score = 60\<rparr>"
  have b: "fst ?rc = ?b"
    by code_simp
  have s: "calculate_overall_score ?b = 25"
    by code_simp
  have c: "determine_confidence ?b (length ?t) = LOW"
    by (simp add: determine_confidence_def pstr_def)
  have i: "map category (filter (\<lambda>i. severity i = pstr ''critical'') (self_issues (snd ?rc))) =
             [pstr ''file_text_extractable'']"
    by code_simp
  have j: "map severity (filter (\<lambda>i. category i = pstr ''contact'') (self_issues (snd ?rc))) =
             [pstr ''major'']"
    by code_simp
  show ?thesis
    unfolding run_ats_checks_fresh_def run_ats_checks_def
    by (simp add: Let_def split_def reset_checker b s c i j)
qed

section \<open>Properties of the calculator\<close>

lemma first_dangerous_finds:
  "list_ex (\<lambda>p. py_in p (lower e)) ps \<Longrightarrow>
     \<exists>p. p \<in> set ps \<and> py_in p (lower e) \<and> first_dangerous ps e = Some p"
  by (induction ps) auto

lemma calc_tool_dangerous:
  "first_dangerous dangerous_patterns e = Some p \<Longrightarrow>
     calc_tool py_eval (PyStr e) =
       failure (pstr ''Dangerous pattern '' @ repr_str p @ pstr '' detected in expression'')"
  by (simp add: calc_tool_def)

text \<open>
  C4. The expression \<open>7 % 3\<close> holds the character \<open>%\<close>, which is none of the allowed
  characters and part of no name. \<open>calc_tool\<close> hands it to the evaluator all the same
  and formats what the evaluator returns: with the value 1, which Python gives, the
  result is a success with the output \<open>1\<close>.
\<close>

theorem calc_unlisted_character_evaluated:
  "\<not> spec_allowed_expression (pstr ''7 % 3'')
   \<and> calc_tool py_eval (PyStr (pstr ''7 % 3'')) = calc_finish (py_eval (pstr ''7 % 3''))
   \<and> calc_tool (\<lambda>e. Inr (EvInt 1)) (PyStr (pstr ''7 % 3'')) = succeeded (pstr ''1'')"
proof -
  have a: "\<not> spec_allowed_expression (pstr ''7 % 3'')"
    by code_simp
  have b: "first_dangerous dangerous_patterns (pstr ''7 % 3'') = None"
    by code_simp
  have c: "format_result (EvInt 1) = pstr ''1''"
    by code_simp
  show ?thesis
    using a by (simp add: calc_tool_def b calc_finish_def c)
qed

text \<open>
  C5. An expression whose lower-cased text holds one of the patterns \<open>__\<close>, \<open>import\<close>,
  \<open>exec\<close>, \<open>eval\<close>, \<open>open\<close>, \<open>file\<close>, \<open>input\<close> gets a failure whose message names a
  pattern of the list that occurs in it, and the result is the same for every evaluator:
  the expression is not evaluated.
\<close>

theorem calc_denylist:
  assumes "list_ex (\<lambda>p. py_in p (lower e)) dangerous_patterns"
  shows "\<exists>p. p \<in> set dangerous_patterns \<and> py_in p (lower e)
           \<and> calc_tool py_eval (PyStr e) =
               failure (pstr ''Dangerous pattern '' @ repr_str p @ pstr '' detected in expression'')
           \<and> calc_tool py_eval' (PyStr e) = calc_tool py_eval (PyStr e)"
proof -
  from first_dangerous_finds [OF assms] obtain p where
    p: "p \<in> set dangerous_patterns" "py_in p (lower e)"
       "first_dangerous dangerous_patterns e = Some p"
    by blast
  have "calc_tool py_eval' (PyStr e) = calc_tool py_eval (PyStr e)"
    using p(3) by (simp add: calc_tool_dangerous)
  with p show ?thesis
    using calc_tool_dangerous by blast
qed

theorem calc_denylist_witness:
  "list_ex (\<lambda>p. py_in p (lower (pstr ''Open(1)''))) dangerous_patterns
   \<and> (\<exists>p. p \<in> set dangerous_patterns \<and> py_in p (lower (pstr ''Open(1)''))
        \<and> calc_tool (\<lambda>e. Inr (EvInt 1)) (PyStr (pstr ''Open(1)'')) =
            failure (pstr ''Dangerous pattern '' @ repr_str p @ pstr '' detected in expression'')
        \<and> calc_tool (\<lambda>e. Inl (SyntaxError [])) (PyStr (pstr ''Open(1)'')) =
            calc_tool (\<lambda>e. Inr (EvInt 1)) (PyStr (pstr ''Open(1)'')))"
proof -
  have h: "list_ex (\<lambda>p. py_in p (lower (pstr ''Open(1)''))) dangerous_patterns"
    by code_simp
  from calc_denylist [OF h] show ?thesis
    using h by blast
qed

section \<open>Properties of the file tools\<close>

lemma traversal_read:
  "py_in (pstr ''..'') p \<or> isabs p \<Longrightarrow>
     read_file_tool fs (PyStr p) =
       (failure (pstr ''Path traversal not allowed. Use relative paths only.''), [])"
  by (simp add: read_file_tool_def)

lemma traversal_list:
  "py_in (pstr ''..'') p \<or> isabs p \<Longrightarrow>
     list_files_tool fs (PyStr p) =
       (failure (pstr ''Path traversal not allowed. Use relative paths only.''), [])"
  by (simp add: list_files_tool_def)

lemma outside_read:
  assumes "\<not> py_in (pstr ''..'') p" "\<not> isabs p" "fs_resolve fs p = Inr q"
    "fs_cwd fs = Inr cur" "\<not> is_under cur q"
  shows "read_file_tool fs (PyStr p) =
     (failure (pstr ''File must be in current directory or subdirectories''), [OpResolve p, OpCwd])"
  using assms
  by (simp add: read_file_tool_def read_file_body_def io_bind_def io_call_def io_return_def)

lemma outside_list:
  assumes "\<not> py_in (pstr ''..'') p" "\<not> isabs p" "fs_resolve fs p = Inr q"
    "fs_cwd fs = Inr cur" "\<not> is_under cur q"
  shows "list_files_tool fs (PyStr p) =
     (failure (pstr ''Directory must be in current directory or subdirectories''),
      [OpResolve p, OpCwd])"
  using assms
  by (simp add: list_files_tool_def list_files_body_def io_bind_def io_call_def io_return_def)

text \<open>
  C6. A path that is absolute or holds \<open>..\<close> makes \<open>read_file\<close> and \<open>list_files\<close> fail
  with \<open>Path traversal not allowed. Use relative paths only.\<close> before any call to the
  file system. A path that resolves outside the working directory makes them fail with
  \<open>File\<close> (\<open>Directory\<close>) \<open>must be in current directory or subdirectories\<close>; the only
  calls made are the resolution of the path and the query of the working directory:
  nothing is opened and nothing is listed. \<open>read_file("../x")\<close>,
  \<open>read_file("/etc/passwd")\<close> and \<open>list_files("../")\<close> fail in the first way.
\<close>

theorem path_traversal_rejected:
  "(py_in (pstr ''..'') p \<or> isabs p \<longrightarrow>
      read_file_tool fs (PyStr p) =
        (failure (pstr ''Path traversal not allowed. Use relative paths only.''), [])
      \<and> list_files_tool fs (PyStr p) =
        (failure (pstr ''Path traversal not allowed. Use relative paths only.''), []))
   \<and> (\<not> py_in (pstr ''..'') p \<and> \<not> isabs p \<and> fs_resolve fs p = Inr q \<and> fs_cwd fs = Inr cur
        \<and> \<not> is_under cur q \<longrightarrow>
      read_file_tool fs (PyStr p) =
        (failure (pstr ''File must be in current directory or subdirectories''),
         [OpResolve p, OpCwd])
      \<and> list_files_tool fs (PyStr p) =
        (failure (pstr ''Directory must be in current directory or subdirectories''),
         [OpResolve p, OpCwd]))
   \<and> read_file_tool fs (PyStr (pstr ''../x'')) =
        (failure (pstr ''Path traversal not allowed. Use relative paths only.''), [])
   \<and> read_file_tool fs (PyStr (pstr ''/etc/passwd'')) =
        (failure (pstr ''Path traversal not allowed. Use relative paths only.''), [])
   \<and> list_files_tool fs (PyStr (pstr ''../'')) =
        (failure (pstr ''Path traversal not allowed. Use relative paths only.''), [])"
proof -
  have a: "py_in (pstr ''..'') (pstr ''../x'') \<or> isabs (pstr ''../x'')"
    by code_simp
  have b: "py_in (pstr ''..'') (pstr ''/etc/passwd'') \<or> isabs (pstr ''/etc/passwd'')"
    by code_simp
  have c: "py_in (pstr ''..'') (pstr ''../'') \<or> isabs (pstr ''../'')"
    by code_simp
  show ?thesis
    using traversal_read [OF a] traversal_read [OF b] traversal_list [OF c]
      traversal_read [of p fs] traversal_list [of p fs]
      outside_read [of p fs q cur] outside_list [of p fs q cur]
    by blast
qed

theorem path_traversal_rejected_witness:
  "(py_in (pstr ''..'') (pstr ''../x'') \<or> isabs (pstr ''../x''))
   \<and> read_file_tool (example_fs []) (PyStr (pstr ''../x'')) =
        (failure (pstr ''Path traversal not allowed. Use relative paths only.''), [])
   \<and> list_files_tool (example_fs []) (PyStr (pstr ''../x'')) =
        (failure (pstr ''Path traversal not allowed. Use relative paths only.''), [])
   \<and> \<not> py_in (pstr ''..'') (pstr ''link'') \<and> \<not> isabs (pstr ''link'')
   \<and> fs_resolve (example_fs []) (pstr ''link'') = Inr [pstr ''etc'', pstr ''passwd'']
   \<and> fs_cwd (example_fs []) = Inr [pstr ''srv'', pstr ''app'']
   \<and> \<not> is_under [pstr ''srv'', pstr ''app''] [pstr ''etc'', pstr ''passwd'']
   \<and> read_file_tool (example_fs []) (PyStr (pstr ''link'')) =
        (failure (pstr ''File must be in current directory or subdirectories''),
         [OpResolve (pstr ''link''), OpCwd])
   \<and> list_files_tool (example_fs []) (PyStr (pstr ''link'')) =
        (failure (pstr ''Directory must be in current directory or subdirectories''),
         [OpResolve (pstr ''link''), OpCwd])"
proof -
  have a: "py_in (pstr ''..'') (pstr ''../x'') \<or> isabs (pstr ''../x'')"
    by code_simp
  have b: "\<not> py_in (pstr ''..'') (pstr ''link'') \<and> \<not> isabs (pstr ''link'')
     \<and> fs_resolve (example_fs []) (pstr ''link'') = Inr [pstr ''etc'', pstr ''passwd'']
     \<and> fs_cwd (example_fs []) = Inr [pstr ''srv'', pstr ''app'']
     \<and> \<not> is_under [pstr ''srv'', pstr ''app''] [pstr ''etc'', pstr ''passwd'']"
    by code_simp
  show ?thesis
    using a b
      path_traversal_rejected [of "pstr ''../x''" "example_fs []"]
      path_traversal_rejected [of "pstr ''link''" "example_fs []"
        "[pstr ''etc'', pstr ''passwd'']" "[pstr ''srv'', pstr ''app'']"]
    by blast
qed

subsection \<open>Decoding with \<open>errors='ignore'\<close>\<close>

lemma utf8_dec_ignore: "mode = Ignore \<Longrightarrow> \<exists>s. utf8_dec mode st bs = Inr s"
  by (induction mode st bs rule: utf8_dec.induct)
     (auto simp: decode_error_def econs_def split: utf8_lead.splits)

lemma decode_utf8_ignore: "\<exists>s. decode_utf8 Ignore bs = Inr s"
  by (simp add: decode_utf8_def utf8_dec_ignore)

lemma return_no_ude: "fst (io_return x) \<noteq> Inl (UnicodeDecodeError m)"
  by (simp add: io_return_def)

lemma call_no_ude: "fst (io_call opn r) \<noteq> Inl (UnicodeDecodeError m)"
proof (cases r)
  case (Inl e)
  then show ?thesis by (cases e) (simp_all add: io_call_def)
next
  case (Inr x)
  then show ?thesis by (simp add: io_call_def)
qed

lemma bind_no_ude:
  assumes "\<And>m. fst a \<noteq> Inl (UnicodeDecodeError m)"
    and "\<And>x m. fst (f x) \<noteq> Inl (UnicodeDecodeError m)"
  shows "fst (io_bind a f) \<noteq> Inl (UnicodeDecodeError m)"
  using assms by (cases "fst a") (auto simp: io_bind_def)

lemma if_no_ude:
  assumes "c \<Longrightarrow> fst a \<noteq> Inl (UnicodeDecodeError m)"
    and "\<not> c \<Longrightarrow> fst b \<noteq> Inl (UnicodeDecodeError m)"
  shows "fst (if c then a else b) \<noteq> Inl (UnicodeDecodeError m)"
  using assms by simp

lemma decoded_no_ude:
  "fst (case decode Utf8 Ignore bs of Inl e \<Rightarrow> (Inl e, [])
        | Inr s \<Rightarrow> io_return (universal_newlines s)) \<noteq> Inl (UnicodeDecodeError m)"
  using decode_utf8_ignore [of bs] by (auto simp: decode_def io_return_def)

lemma open_utf8_no_ude: "fst (open_read fs q Utf8) \<noteq> Inl (UnicodeDecodeError m)"
  unfolding open_read_def by (intro bind_no_ude call_no_ude decoded_no_ude)

lemma read_content_utf8: "read_content fs q = open_read fs q Utf8"
  using open_utf8_no_ude [of fs q]
  by (auto simp: read_content_def split: sum.splits pyexc.splits)

lemma body_no_ude: "fst (read_file_body fs p) \<noteq> Inl (UnicodeDecodeError m)"
  unfolding read_file_body_def read_content_utf8
  by (intro bind_no_ude call_no_ude if_no_ude return_no_ude open_utf8_no_ude)

lemma except_msg:
  "error (read_file_except e) = pstr ''File contains invalid characters'' \<Longrightarrow>
     \<exists>m. e = UnicodeDecodeError m"
  by (cases e) (simp_all add: failure_def pstr_def)

lemma never_invalid_characters:
  "error (fst (read_file_tool fs v)) \<noteq> pstr ''File contains invalid characters''"
proof (cases v)
  case (PyStr p)
  show ?thesis
  proof (cases "py_in (pstr ''..'') p \<or> isabs p")
    case True
    with PyStr show ?thesis by (simp add: read_file_tool_def failure_def pstr_def)
  next
    case False
    show ?thesis
    proof (cases "fst (read_file_body fs p)")
      case (Inl e)
      with body_no_ude [of fs p] have "\<And>m. e \<noteq> UnicodeDecodeError m" by auto
      with except_msg [of e] PyStr False Inl show ?thesis
        by (auto simp: read_file_tool_def)
    next
      case (Inr r)
      with PyStr False show ?thesis
        by (auto simp: read_file_tool_def read_file_body_def io_bind_def io_call_def
            io_return_def failure_def succeeded_def pstr_def split: sum.splits if_splits)
    qed
  qed
qed (simp_all add: read_file_tool_def failure_def pstr_def)

lemma read_file_success:
  assumes "\<not> py_in (pstr ''..'') p" "\<not> isabs p" "fs_resolve fs p = Inr q"
    "fs_cwd fs = Inr cur" "is_under cur q" "fs_exists fs q = Inr True"
    "fs_is_file fs q = Inr True" "fs_st_size fs q = Inr n" "n \<le> 1024 * 1024"
    "fs_read_bytes fs q = Inr bs" "decode_utf8 Ignore bs = Inr s"
  shows "read_file_tool fs (PyStr p) =
     (succeeded (universal_newlines s),
      [OpResolve p, OpCwd, OpExists q, OpIsFile q, OpStat q, OpOpenRead q Utf8])"
  using assms
  by (simp add: read_file_tool_def read_file_body_def read_content_utf8 open_read_def
      decode_def io_bind_def io_call_def io_return_def)

text \<open>
  C10, as the code has it. For a path that passes the containment, existence,
  regular-file and size checks: decoding as UTF-8 with \<open>errors='ignore'\<close> returns a string
  for every sequence of bytes, so the second read (UTF-16) is never started and the
  result never carries \<open>File contains invalid characters\<close>; when opening and reading
  the file raises nothing, \<open>read_file\<close> succeeds with the decoded content, whatever the
  bytes are.
\<close>

theorem read_file_decodes_any_bytes:
  assumes "\<not> py_in (pstr ''..'') p" "\<not> isabs p" "fs_resolve fs p = Inr q"
    "fs_cwd fs = Inr cur" "is_under cur q" "fs_exists fs q = Inr True"
    "fs_is_file fs q = Inr True" "fs_st_size fs q = Inr n" "n \<le> 1024 * 1024"
    "fs_read_bytes fs q = Inr bs"
  shows "(\<exists>s. decode_utf8 Ignore bs = Inr s
            \<and> read_file_tool fs (PyStr p) =
                (succeeded (universal_newlines s),
                 [OpResolve p, OpCwd, OpExists q, OpIsFile q, OpStat q, OpOpenRead q Utf8]))
         \<and> (\<exists>s'. decode_utf8 Ignore bs' = Inr s')
         \<and> read_content fs' q' = open_read fs' q' Utf8
         \<and> error (fst (read_file_tool fs' v)) \<noteq> pstr ''File contains invalid characters''"
proof -
  obtain s where s: "decode_utf8 Ignore bs = Inr s"
    using decode_utf8_ignore by blast
  from read_file_success [OF assms s] s show ?thesis
    using decode_utf8_ignore read_content_utf8 never_invalid_characters by blast
qed

theorem read_file_decodes_any_bytes_witness:
  "\<not> py_in (pstr ''..'') (pstr ''a.txt'') \<and> \<not> isabs (pstr ''a.txt'')
   \<and> is_under [pstr ''srv'', pstr ''app''] [pstr ''srv'', pstr ''app'', pstr ''a.txt'']
   \<and> fs_read_bytes (example_fs [72, 105, 13, 10, 255, 33])
        [pstr ''srv'', pstr ''app'', pstr ''a.txt''] = Inr [72, 105, 13, 10, 255, 33]
   \<and> (\<exists>s. decode_utf8 Ignore [72, 105, 13, 10, 255, 33] = Inr s
        \<and> read_file_tool (example_fs [72, 105, 13, 10, 255, 33]) (PyStr (pstr ''a.txt'')) =
            (succeeded (universal_newlines s),
             [OpResolve (pstr ''a.txt''), OpCwd,
              OpExists [pstr ''srv'', pstr ''app'', pstr ''a.txt''],
              OpIsFile [pstr ''srv'', pstr ''app'', pstr ''a.txt''],
              OpStat [pstr ''srv'', pstr ''app'', pstr ''a.txt''],
              OpOpenRead [pstr ''srv'', pstr ''app'', pstr ''a.txt''] Utf8]))"
proof -
  let ?fs = "example_fs [72, 105, 13, 10, 255, 33]"
  let ?q = "[pstr ''srv'', pstr ''app'', pstr ''a.txt'']"
  have h: "\<not> py_in (pstr ''..'') (pstr ''a.txt'')" "\<not> isabs (pstr ''a.txt'')"
    "fs_resolve ?fs (pstr ''a.txt'') = Inr ?q" "fs_cwd ?fs = Inr [pstr ''srv'', pstr ''app'']"
    "is_under [pstr ''srv'', pstr ''app''] ?q" "fs_exists ?fs ?q = Inr True"
    "fs_is_file ?fs ?q = Inr True" "fs_st_size ?fs ?q = Inr 6"
    by code_simp+
  have n: "(6::int) \<le> 1024 * 1024"
    by simp
  have r: "fs_read_bytes ?fs ?q = Inr [72, 105, 13, 10, 255, 33]"
    by code_simp
  from read_file_decodes_any_bytes [OF h n r] show ?thesis
    using h r by blast
qed

text \<open>
  The claim C10 as it is worded fails when opening or reading the file raises an
  exception other than \<open>PermissionError\<close>: all the checks pass, no permission error
  occurs, and the result is the failure \<open>File read error: ...\<close>.
\<close>

theorem read_file_other_error_counterexample:
  "\<not> py_in (pstr ''..'') (pstr ''a.txt'') \<and> \<not> isabs (pstr ''a.txt'')
   \<and> fs_resolve failing_fs (pstr ''a.txt'') = Inr [pstr ''srv'', pstr ''app'', pstr ''a.txt'']
   \<and> fs_cwd failing_fs = Inr [pstr ''srv'', pstr ''app'']
   \<and> is_under [pstr ''srv'', pstr ''app''] [pstr ''srv'', pstr ''app'', pstr ''a.txt'']
   \<and> fs_exists failing_fs [pstr ''srv'', pstr ''app'', pstr ''a.txt''] = Inr True
   \<and> fs_is_file failing_fs [pstr ''srv'', pstr ''app'', pstr ''a.txt''] = Inr True
   \<and> fs_st_size failing_fs [pstr ''srv'', pstr ''app'', pstr ''a.txt''] = Inr 0
   \<and> fs_read_bytes failing_fs [pstr ''srv'', pstr ''app'', pstr ''a.txt''] =
        Inl (OtherFailure (pstr ''[Errno 24] Too many open files''))
   \<and> fst (read_file_tool failing_fs (PyStr (pstr ''a.txt''))) =
        failure (pstr ''File read error: [Errno 24] Too many open files'')"
  by code_simp

section \<open>Properties of the executor\<close>









end
